theory Spec2Isabelle
  imports Main
begin

section \<open>Python values, exceptions and tensors\<close>

text \<open>
  The program is the Python 3 module \<^verbatim>\<open>autoencoder.py\<close>: the class
  \<^verbatim>\<open>stack_autoencoder\<close>, which builds a TensorFlow graph. A dimension of a
  static shape is an integer or \<^verbatim>\<open>None\<close>; a shape is the list of its dimensions.
\<close>

type_synonym dim = "int option"
type_synonym shape = "dim list"

text \<open>The Python values that reach a dynamically typed position of the program.\<close>

datatype pyval = PyNone | PyBool bool | PyInt int | PyStr string | PyList shape

text \<open>
  Every \<^verbatim>\<open>raise\<close> of the source is a \<open>ValueError\<close> with its message; the other
  exceptions are the ones the interpreter raises itself.
\<close>

datatype error =
    ValueError string
  | TypeError string
  | NameError string
  | AttributeError string
  | IndexError

text \<open>
  The module is written against TensorFlow 1.x (\<^verbatim>\<open>tf.placeholder\<close>,
  \<^verbatim>\<open>tf.variable_scope\<close>). A tensor is the node of the graph that produces it; a
  placeholder and a constant carry the element type they are declared with.
  \<open>Less i p\<close> is \<^verbatim>\<open>tf.less(i, p)\<close> and \<open>Cond c a b\<close> is
  \<^verbatim>\<open>tf.cond(c, lambda: a, lambda: b)\<close>. The numbers a node computes are outside the
  model.
\<close>

datatype dtype = Uint8 | Int32 | Float32 | Bool

datatype tensor =
    Placeholder string dtype
  | Constant string dtype
  | Variable string shape
  | Less int tensor
  | Cond tensor tensor tensor
  | ResizeNearestNeighbor tensor shape
  | Conv2d tensor tensor
  | BiasAdd tensor tensor
  | Relu tensor
  | MaxPool tensor "int list" "int list"

text \<open>
  The element type of a tensor: a comparison yields booleans, a conditional the type of
  its branches, every other operation the type of its input; parameters are floats.
\<close>

fun dtype_of :: "tensor \<Rightarrow> dtype" where
  "dtype_of (Placeholder n d) = d"
| "dtype_of (Constant n d) = d"
| "dtype_of (Variable n s) = Float32"
| "dtype_of (Less i p) = Bool"
| "dtype_of (Cond c a b) = dtype_of a"
| "dtype_of (ResizeNearestNeighbor x s) = dtype_of x"
| "dtype_of (Conv2d x k) = dtype_of x"
| "dtype_of (BiasAdd x b) = dtype_of x"
| "dtype_of (Relu x) = dtype_of x"
| "dtype_of (MaxPool x k s) = dtype_of x"

text \<open>
  The object state. The attributes \<^verbatim>\<open>layer_train_ph\<close>, \<^verbatim>\<open>encoded\<close> and
  \<^verbatim>\<open>decoded\<close> do not exist until \<^verbatim>\<open>__gen_model\<close> assigns them: \<open>None\<close> is
  the missing attribute.
\<close>

record stack_autoencoder =
  scope_name :: string
  in_data :: tensor
  in_shape :: shape
  layer_num :: int
  hidden_outputs :: shape
  layer_train_ph :: "tensor option"
  encoded :: "tensor list option"
  decoded :: "tensor option"

subsection \<open>Sequencing of computations that may raise\<close>

definition bind :: "error + 'a \<Rightarrow> ('a \<Rightarrow> error + 'b) \<Rightarrow> error + 'b" where
  "bind m f = (case m of Inl e \<Rightarrow> Inl e | Inr x \<Rightarrow> f x)"

subsection \<open>Indexing and slicing\<close>

text \<open>\<^verbatim>\<open>xs[i]\<close>: a negative index counts from the end, an index out of range raises.\<close>

definition py_index :: "'a list \<Rightarrow> int \<Rightarrow> error + 'a" where
  "py_index xs i =
     (if 0 \<le> i \<and> i < int (length xs) then Inr (xs ! nat i)
      else if i < 0 \<and> - int (length xs) \<le> i then Inr (xs ! nat (int (length xs) + i))
      else Inl IndexError)"

text \<open>\<^verbatim>\<open>xs[-3:]\<close>, \<^verbatim>\<open>xs[-1:]\<close> and \<^verbatim>\<open>xs[-3:-1]\<close>; a slice never raises.\<close>

definition last3 :: "'a list \<Rightarrow> 'a list" where
  "last3 xs = drop (length xs - 3) xs"

definition last1 :: "'a list \<Rightarrow> 'a list" where
  "last1 xs = drop (length xs - 1) xs"

definition last3_but1 :: "'a list \<Rightarrow> 'a list" where
  "last3_but1 xs = butlast (drop (length xs - 3) xs)"

section \<open>The accessor \<^verbatim>\<open>get_encoded\<close>\<close>

text \<open>
  \<^verbatim>\<open>index > self.layer_num\<close>: in Python 3 the order comparison of \<^verbatim>\<open>None\<close> with an
  integer raises \<open>TypeError\<close>.
\<close>

definition py_gt :: "int option \<Rightarrow> int \<Rightarrow> error + bool" where
  "py_gt a b =
     (case a of
        None \<Rightarrow> Inl (TypeError ''> not supported between instances of NoneType and int'')
      | Some x \<Rightarrow> Inr (x > b))"

text \<open>\<^verbatim>\<open>self.encoded\<close>: reading an attribute that was never assigned raises.\<close>

definition get_attr :: "string \<Rightarrow> 'a option \<Rightarrow> error + 'a" where
  "get_attr a v = (case v of None \<Rightarrow> Inl (AttributeError a) | Some x \<Rightarrow> Inr x)"

text \<open>
  \<^verbatim>\<open>
  def get_encoded(self, index=None):
      if index > self.layer_num:
          raise ValueError('The index must be less than the layer_num.')
      if index is None:
          index = self.layer_num
      return self.encoded[index]
  \<close>
\<close>

definition get_encoded :: "stack_autoencoder \<Rightarrow> int option \<Rightarrow> error + tensor" where
  "get_encoded self index =
     bind (py_gt index (layer_num self)) (\<lambda>too_big.
       if too_big then Inl (ValueError ''The index must be less than the layer_num.'')
       else
         let index' = (case index of None \<Rightarrow> layer_num self | Some i \<Rightarrow> i)
         in bind (get_attr ''encoded'' (encoded self)) (\<lambda>es. py_index es index'))"

text \<open>
  The state the build is meant to leave: \<^verbatim>\<open>self.encoded\<close> holds the input tensor
  followed by one output per encode stage (\<open>layer_num\<close> is the length of a list, as
  the constructor checks).
\<close>

definition built :: "stack_autoencoder \<Rightarrow> bool" where
  "built self =
     (case encoded self of
        None \<Rightarrow> False
      | Some es \<Rightarrow>
          0 \<le> layer_num self \<and> int (length es) = layer_num self + 1 \<and> es ! 0 = in_data self)"

section \<open>The constructor\<close>

text \<open>
  The static shape of a tensor (\<^verbatim>\<open>t.shape\<close>) is TensorFlow's and a parameter
  \<open>shape_of\<close> of the model. In TensorFlow 1.x it is a \<^verbatim>\<open>TensorShape\<close>, and
  iterating it or a slice of it yields \<^verbatim>\<open>Dimension\<close> objects. The equality of a
  \<^verbatim>\<open>Dimension\<close> converts the other side to a dimension (\<^verbatim>\<open>None\<close> to the
  unknown one) and answers \<^verbatim>\<open>None\<close> when either side is unknown, the truth value
  of the comparison otherwise.
\<close>

definition dimension_eq :: "dim \<Rightarrow> dim \<Rightarrow> bool option" where
  "dimension_eq a b = (case (a, b) of (Some x, Some y) \<Rightarrow> Some (x = y) | _ \<Rightarrow> None)"

text \<open>
  \<^verbatim>\<open>None in dims\<close>: some element is \<^verbatim>\<open>None\<close> itself, which a
  \<^verbatim>\<open>Dimension\<close> object never is, or compares equal to \<^verbatim>\<open>None\<close> with a true
  answer.
\<close>

fun none_in :: "shape \<Rightarrow> bool" where
  "none_in [] = False"
| "none_in (d # ds) = (dimension_eq d None = Some True \<or> none_in ds)"

text \<open>
  \<^verbatim>\<open>
  def __init__(self, in_data, layer_num, hidden_outputs):
      shape = in_data.shape
      if None in shape[-3:]:
          raise ValueError('The last 3-D shape must be known and cannot be None.')
      if len(hidden_outputs) != layer_num:
          raise ValueError('The length of the hidden_outputs must be equal layer_num.')
      self.scope_name = 'stack_autoencoder'
      self.in_data = in_data
      self.in_shape = self.in_data.shape
      self.layer_num = layer_num
      self.hidden_outputs = self.in_shape[-1:] + hidden_outputs
  \<close>
\<close>

definition init :: "(tensor \<Rightarrow> shape) \<Rightarrow> tensor \<Rightarrow> int \<Rightarrow> int list \<Rightarrow> error + stack_autoencoder" where
  "init shape_of x n hs =
     (let shape = shape_of x in
      if none_in (last3 shape)
      then Inl (ValueError ''The last 3-D shape must be known and cannot be None.'')
      else if int (length hs) \<noteq> n
      then Inl (ValueError ''The length of the hidden_outputs must be equal layer_num.'')
      else Inr \<lparr>scope_name = ''stack_autoencoder'', in_data = x, in_shape = shape_of x,
                layer_num = n, hidden_outputs = last1 (shape_of x) @ map Some hs,
                layer_train_ph = None, encoded = None, decoded = None\<rparr>)"

section \<open>String formatting and the layer name\<close>

text \<open>The decimal numeral of an integer, as \<^verbatim>\<open>%d\<close> prints it.\<close>

fun show_nat :: "nat \<Rightarrow> string" where
  "show_nat n =
     (if n < 10 then [''0123456789'' ! n]
      else show_nat (n div 10) @ [''0123456789'' ! (n mod 10)])"

definition show_int :: "int \<Rightarrow> string" where
  "show_int i = (if i < 0 then CHR ''-'' # show_nat (nat (- i)) else show_nat (nat i))"

text \<open>\<^verbatim>\<open>fmt % i\<close> for a format with one \<^verbatim>\<open>%d\<close>.\<close>

fun format_d :: "string \<Rightarrow> int \<Rightarrow> string" where
  "format_d (c # d # cs) i =
     (if c = CHR ''%'' \<and> d = CHR ''d'' then show_int i @ cs else c # format_d (d # cs) i)"
| "format_d cs i = cs"

text \<open>\<^verbatim>\<open>s + y\<close> for a string \<open>s\<close>: only a string can be concatenated to a string.\<close>

definition str_plus :: "string \<Rightarrow> pyval \<Rightarrow> error + string" where
  "str_plus s y =
     (case y of
        PyStr t \<Rightarrow> Inr (s @ t)
      | _ \<Rightarrow> Inl (TypeError ''can only concatenate str to str''))"

text \<open>
  \<^verbatim>\<open>name = 'hidden_%d' % i+1\<close>: the operators \<^verbatim>\<open>%\<close> and \<^verbatim>\<open>+\<close> associate to the
  left and \<^verbatim>\<open>%\<close> binds tighter, so this is \<^verbatim>\<open>('hidden_%d' % i) + 1\<close>.
\<close>

definition hidden_name :: "int \<Rightarrow> error + string" where
  "hidden_name i = str_plus (format_d ''hidden_%d'' i) (PyInt 1)"

text \<open>\<^verbatim>\<open>x + ys\<close> for a list \<open>ys\<close>: only a list can be concatenated to a list.\<close>

definition plus_list :: "pyval \<Rightarrow> shape \<Rightarrow> error + shape" where
  "plus_list x ys =
     (case x of
        PyList xs \<Rightarrow> Inr (xs @ ys)
      | _ \<Rightarrow> Inl (TypeError ''unsupported operand type(s) for +''))"

section \<open>The codec operator\<close>

text \<open>
  Modelled from the spec: the module \<^verbatim>\<open>tools\<close> of the repository is not among the
  sources. \<^verbatim>\<open>tools.variable_with_weight_decay\<close> and \<^verbatim>\<open>tools.variable_on_cpu\<close>
  allocate a parameter of the given shape under the current variable scope
  (\<open>allocate_weight\<close> and \<open>allocate_bias\<close> of the spec); initial values are not
  modelled. \<^verbatim>\<open>tools.activation_summary\<close> only logs.
\<close>

definition scope_join :: "string \<Rightarrow> string \<Rightarrow> string" where
  "scope_join scope name = (if scope = [] then name else scope @ ''/'' @ name)"

definition variable_with_weight_decay :: "string \<Rightarrow> string \<Rightarrow> shape \<Rightarrow> tensor" where
  "variable_with_weight_decay scope name shp = Variable (scope_join scope name) shp"

definition variable_on_cpu :: "string \<Rightarrow> string \<Rightarrow> shape \<Rightarrow> tensor" where
  "variable_on_cpu scope name shp = Variable (scope_join scope name) shp"

text \<open>
  The attribute lookup \<^verbatim>\<open>tf.image.<attr>\<close>. Of the functions of the module only the
  nearest-neighbour resize is modelled; a name the module does not have raises.
\<close>

definition tf_image :: "string \<Rightarrow> error + (tensor \<Rightarrow> shape \<Rightarrow> tensor)" where
  "tf_image attr =
     (if attr = ''resize_nearest_neighbor'' then Inr ResizeNearestNeighbor
      else Inl (AttributeError attr))"

text \<open>
  \<^verbatim>\<open>
  def codec(imgs, filter, is_encode, stddev=5e-2, name=None, new_size=None,
            ksize=[1, 2, 2, 1], strides=[1, 2, 2, 1]):
      if not isinstance(is_encode, bool):
          raise ValueError('The value of the is_encode must be a bool type.')
      if name is None:
          if is_encode: name = 'encoder'
          else: name = 'decoder'
      layers = [imgs]
      with tf.variable_scope(name) as scope:
          if not is_encode:
              if new_size is None:
                  raise ValueError('The value of the new_size must be set if the is_encode is False.')
              unsampling = tf.image.resize_nearest_nerghbor(layers[-1], new_size, name='upsample')
              layers.append(unsampling)
          kernel = tools.variable_with_weight_decay('weights', shape=filter, stddev=stddev, wd=None)
          conv = tf.nn.conv2d(layers[-1], kernel, [1, 1, 1, 1], padding='SAME')
          biases = tools.variable_on_cpu('biased', filter[-1:], tf.constant_initializer(0.0))
          pre_activation = tf.nn.bias_add(conv, biases)
          activation = tf.nn.relu(pre_activation, name=scope.name)
          layers.append(activation)
          tools.activation_summary(layers[-1])
          if is_encode:
              downsampling = tf.nn.max_pool(layers[-1], ksize=ksize, strides=strides,
                                            padding='SAME', name='downsample')
              layers.append(downsampling)
      return layers[-1]
  \<close>
  The first argument of the model is the variable scope the call is made in, which
  the source gets from the enclosing \<^verbatim>\<open>with tf.variable_scope\<close> blocks.
\<close>

definition codec ::
  "string \<Rightarrow> tensor \<Rightarrow> shape \<Rightarrow> pyval \<Rightarrow> string option \<Rightarrow> shape option
     \<Rightarrow> int list \<Rightarrow> int list \<Rightarrow> error + tensor" where
  "codec scope imgs filter_shape is_encode name new_size ksize strides =
     (case is_encode of
        PyBool enc \<Rightarrow>
          (let name' = (case name of
                          None \<Rightarrow> (if enc then ''encoder'' else ''decoder'')
                        | Some n \<Rightarrow> n);
               sc = scope_join scope name'
           in bind
                (if \<not> enc then
                   (case new_size of
                      None \<Rightarrow> Inl (ValueError
                        ''The value of the new_size must be set if the is_encode is False.'')
                    | Some sz \<Rightarrow>
                        bind (tf_image ''resize_nearest_nerghbor'')
                          (\<lambda>resize. Inr [imgs, resize imgs sz]))
                 else Inr [imgs])
                (\<lambda>layers.
                   let kernel = variable_with_weight_decay sc ''weights'' filter_shape;
                       conv = Conv2d (last layers) kernel;
                       biases = variable_on_cpu sc ''biased'' (last1 filter_shape);
                       pre_activation = BiasAdd conv biases;
                       activation = Relu pre_activation
                   in Inr (if enc then MaxPool activation ksize strides else activation)))
      | _ \<Rightarrow> Inl (ValueError ''The value of the is_encode must be a bool type.''))"

section \<open>The build\<close>

text \<open>
  The two loops of \<^verbatim>\<open>__gen_model\<close> are written over an environment: the static
  shape of a tensor, which is TensorFlow's, and the two expressions of the loop body
  that are evaluated before any tensor is produced, the layer name (lines 147 and 162)
  and the callee \<^verbatim>\<open>codec\<close> of the call (lines 154 and 169). The program's own
  environment is \<open>source_env\<close> below.
\<close>

type_synonym codec_fn =
  "string \<Rightarrow> tensor \<Rightarrow> shape \<Rightarrow> pyval \<Rightarrow> string option \<Rightarrow> shape option \<Rightarrow> error + tensor"

record env =
  static_shape :: "tensor \<Rightarrow> shape"
  layer_name :: "int \<Rightarrow> error + string"
  codec_name :: "error + codec_fn"

text \<open>
  In \<^verbatim>\<open>__gen_model\<close> the name \<^verbatim>\<open>codec\<close> is a global name. The module defines
  \<^verbatim>\<open>codec\<close> only as an attribute of the class, so the lookup raises \<open>NameError\<close>.
\<close>

definition source_env :: "(tensor \<Rightarrow> shape) \<Rightarrow> env" where
  "source_env shape_of =
     \<lparr>static_shape = shape_of, layer_name = hidden_name,
      codec_name = Inl (NameError ''codec'')\<rparr>"

text \<open>\<^verbatim>\<open>range(n)\<close>; the decode loop runs over its reverse, \<^verbatim>\<open>range(n-1, -1, -1)\<close>.\<close>

definition py_range :: "int \<Rightarrow> int list" where
  "py_range n = map int [0..<nat n]"

text \<open>
  \<^verbatim>\<open>tf.less(i, p)\<close> for a Python integer \<open>i\<close>. The first operand fixes the type
  of the operation: an integer becomes an \<^verbatim>\<open>int32\<close> constant, and a second operand
  of any other element type is refused when the node is built.
\<close>

definition tf_less :: "int \<Rightarrow> tensor \<Rightarrow> error + tensor" where
  "tf_less i p =
     (if dtype_of p = Int32 then Inr (Less i p)
      else Inl (TypeError ''Input y of Less Op has a type that does not match type int32 of argument x''))"

text \<open>
  The input of encode stage \<open>i\<close> (lines 149 to 153):
  \<^verbatim>\<open>
  layer = layers[-1]
  if i != 0:
      include_fn = lambda var=layers[-1]: var
      exclude_fn = lambda: zero_constant
      layer = tf.cond(tf.less(i, self.layer_train_ph), include_fn, exclude_fn)
  \<close>
\<close>

definition encode_layer :: "int \<Rightarrow> tensor \<Rightarrow> tensor \<Rightarrow> tensor list \<Rightarrow> error + tensor" where
  "encode_layer i ph zero_constant layers =
     bind (py_index layers (- 1)) (\<lambda>layer.
       if i \<noteq> 0 then
         bind (py_index layers (- 1)) (\<lambda>var.
         bind (tf_less i ph) (\<lambda>c. Inr (Cond c var zero_constant)))
       else Inr layer)"

text \<open>
  The input of decode stage \<open>i\<close> (lines 164 to 168); \<^verbatim>\<open>tf.cond\<close> calls both
  functions while the graph is built, so \<^verbatim>\<open>layers[i]\<close> is read in the same iteration,
  after the predicate is built:
  \<^verbatim>\<open>
  layer = layers[-1]
  if i != 0:
      include_fn = lambda var=layers[-1]: var
      exclude_fn = lambda: layers[i]
      layer = tf.cond(tf.less(i, self.layer_train_ph), include_fn, exclude_fn)
  \<close>
\<close>

definition decode_layer :: "int \<Rightarrow> tensor \<Rightarrow> tensor list \<Rightarrow> error + tensor" where
  "decode_layer i ph layers =
     bind (py_index layers (- 1)) (\<lambda>layer.
       if i \<noteq> 0 then
         bind (py_index layers (- 1)) (\<lambda>var.
         bind (tf_less i ph) (\<lambda>c.
         bind (py_index layers i) (\<lambda>other. Inr (Cond c var other))))
       else Inr layer)"

text \<open>
  One iteration of the encode loop. The state is \<^verbatim>\<open>layers\<close>,
  \<^verbatim>\<open>size_each_hidden\<close> and \<^verbatim>\<open>self.encoded\<close>; the three appends come after every
  point that can raise.
  \<^verbatim>\<open>
  name = 'hidden_%d' % i+1
  filter = filter_sizes[i] + layers[-1].shape[-1:] + [self.hidden_outputs[i+1]]
  layer = ...
  hidden = codec(layer, filter, True, name=name)
  size_each_hidden.append(hidden.shape[-3:-1])
  layers.append(hidden)
  self.encoded.append(hidden)
  \<close>
\<close>

type_synonym encode_state = "tensor list \<times> shape list \<times> tensor list"

definition encode_step ::
  "env \<Rightarrow> string \<Rightarrow> pyval list \<Rightarrow> shape \<Rightarrow> tensor \<Rightarrow> tensor \<Rightarrow> int \<Rightarrow> encode_state
     \<Rightarrow> error + encode_state" where
  "encode_step E scope filter_sizes hs ph zero_constant i st =
     (case st of (layers, size_each_hidden, enc) \<Rightarrow>
        bind (layer_name E i) (\<lambda>name.
        bind (py_index filter_sizes i) (\<lambda>fsz.
        bind (py_index layers (- 1)) (\<lambda>prev.
        bind (plus_list fsz (last1 (static_shape E prev))) (\<lambda>f.
        bind (py_index hs (i + 1)) (\<lambda>ho.
        bind (encode_layer i ph zero_constant layers) (\<lambda>layer.
        bind (codec_name E) (\<lambda>codec_f.
        bind (codec_f scope layer (f @ [ho]) (PyBool True) (Some name) None) (\<lambda>hidden.
          Inr (layers @ [hidden],
               size_each_hidden @ [last3_but1 (static_shape E hidden)],
               enc @ [hidden]))))))))))"

fun encode_loop ::
  "env \<Rightarrow> string \<Rightarrow> pyval list \<Rightarrow> shape \<Rightarrow> tensor \<Rightarrow> tensor \<Rightarrow> int list \<Rightarrow> encode_state
     \<Rightarrow> error option \<times> encode_state" where
  "encode_loop E scope filter_sizes hs ph zero_constant [] st = (None, st)"
| "encode_loop E scope filter_sizes hs ph zero_constant (i # rest) st =
     (case encode_step E scope filter_sizes hs ph zero_constant i st of
        Inl e \<Rightarrow> (Some e, st)
      | Inr st' \<Rightarrow> encode_loop E scope filter_sizes hs ph zero_constant rest st')"

text \<open>
  One iteration of the decode loop; its state is \<^verbatim>\<open>layers\<close>.
  \<^verbatim>\<open>
  name = 'hidden_%d' % i+1
  filter = filter_sizes[i] + layers[-1].shape[-1:] + [self.hidden_outputs[i]]
  layer = ...
  hidden = codec(layer, filter, False, name=name, new_size=size_each_hidden[i])
  layers.append(hidden)
  \<close>
\<close>

definition decode_step ::
  "env \<Rightarrow> string \<Rightarrow> pyval list \<Rightarrow> shape \<Rightarrow> tensor \<Rightarrow> shape list \<Rightarrow> int \<Rightarrow> tensor list
     \<Rightarrow> error + tensor list" where
  "decode_step E scope filter_sizes hs ph size_each_hidden i layers =
     bind (layer_name E i) (\<lambda>name.
     bind (py_index filter_sizes i) (\<lambda>fsz.
     bind (py_index layers (- 1)) (\<lambda>prev.
     bind (plus_list fsz (last1 (static_shape E prev))) (\<lambda>f.
     bind (py_index hs i) (\<lambda>ho.
     bind (decode_layer i ph layers) (\<lambda>layer.
     bind (codec_name E) (\<lambda>codec_f.
     bind (py_index size_each_hidden i) (\<lambda>new_size.
     bind (codec_f scope layer (f @ [ho]) (PyBool False) (Some name) (Some new_size)) (\<lambda>hidden.
       Inr (layers @ [hidden]))))))))))"

fun decode_loop ::
  "env \<Rightarrow> string \<Rightarrow> pyval list \<Rightarrow> shape \<Rightarrow> tensor \<Rightarrow> shape list \<Rightarrow> int list \<Rightarrow> tensor list
     \<Rightarrow> error + tensor list" where
  "decode_loop E scope filter_sizes hs ph size_each_hidden [] layers = Inr layers"
| "decode_loop E scope filter_sizes hs ph size_each_hidden (i # rest) layers =
     bind (decode_step E scope filter_sizes hs ph size_each_hidden i layers)
       (decode_loop E scope filter_sizes hs ph size_each_hidden rest)"

text \<open>
  \<^verbatim>\<open>gen_model\<close> opens the scope \<^verbatim>\<open>self.scope_name\<close> and calls \<^verbatim>\<open>__gen_model\<close>:
  \<^verbatim>\<open>
  if len(filter_sizes) != 1 or len(filter_sizes) != self.layer_num:
      raise ValueError('The length of filter_sizes must be equal 1 or layer_num.')
  self.layer_train_ph = tf.placeholder(name='layer_train', shape=(), dtype=tf.uint8)
  zero_constant = tf.constant(0.0, dtype=tf.float32, shape=(), name='zero_constant')
  if len(filter_sizes) == 1:
      filter_sizes = filter_sizes * self.layer_num
  size_each_hidden = [self.in_shape[-3:-1]]
  layers = [self.in_data]
  self.encoded = [self.in_data]
  with tf.variable_scope('encoder') as scope:
      for i in range(self.layer_num): ...
  with tf.variable_scope('decoder') as scope:
      for i in range(self.layer_num-1, -1, -1): ...
  self.decoded = layers[-1]
  return self.decoded
  \<close>
  The result is the returned tensor or the exception, together with the object as the
  call leaves it: the assignments made before a raise stay.
\<close>

definition gen_model_in ::
  "env \<Rightarrow> stack_autoencoder \<Rightarrow> pyval list \<Rightarrow> (error + tensor) \<times> stack_autoencoder" where
  "gen_model_in E self filter_sizes =
     (if length filter_sizes \<noteq> 1 \<or> int (length filter_sizes) \<noteq> layer_num self
      then (Inl (ValueError ''The length of filter_sizes must be equal 1 or layer_num.''), self)
      else
        let ph = Placeholder ''layer_train'' Uint8;
            zero_constant = Constant ''zero_constant'' Float32;
            fs = (if length filter_sizes = 1
                  then concat (replicate (nat (layer_num self)) filter_sizes)
                  else filter_sizes);
            self1 = self\<lparr>layer_train_ph := Some ph, encoded := Some [in_data self]\<rparr>
        in case encode_loop E (scope_join (scope_name self) ''encoder'') fs
                  (hidden_outputs self) ph zero_constant (py_range (layer_num self))
                  ([in_data self], [last3_but1 (in_shape self)], [in_data self]) of
             (Some e, (layers, size_each_hidden, enc)) \<Rightarrow>
               (Inl e, self1\<lparr>encoded := Some enc\<rparr>)
           | (None, (layers, size_each_hidden, enc)) \<Rightarrow>
               (case bind (decode_loop E (scope_join (scope_name self) ''decoder'') fs
                             (hidden_outputs self) ph size_each_hidden
                             (rev (py_range (layer_num self))) layers)
                          (\<lambda>layers'. py_index layers' (- 1)) of
                  Inl e \<Rightarrow> (Inl e, self1\<lparr>encoded := Some enc\<rparr>)
                | Inr d \<Rightarrow> (Inr d, self1\<lparr>encoded := Some enc, decoded := Some d\<rparr>)))"

text \<open>The program's \<^verbatim>\<open>gen_model\<close>; the default argument is \<^verbatim>\<open>[3, 3]\<close>.\<close>

definition gen_model ::
  "(tensor \<Rightarrow> shape) \<Rightarrow> stack_autoencoder \<Rightarrow> pyval list \<Rightarrow> (error + tensor) \<times> stack_autoencoder" where
  "gen_model shape_of self filter_sizes = gen_model_in (source_env shape_of) self filter_sizes"

definition default_filter_sizes :: "pyval list" where
  "default_filter_sizes = [PyInt 3, PyInt 3]"

section \<open>The variable index\<close>

text \<open>\<^verbatim>\<open>p in s\<close> for strings: \<open>p\<close> occurs in \<open>s\<close> as a contiguous substring.\<close>

fun starts_with :: "string \<Rightarrow> string \<Rightarrow> bool" where
  "starts_with [] s = True"
| "starts_with (c # p) [] = False"
| "starts_with (c # p) (d # s) = (c = d \<and> starts_with p s)"

fun contains :: "string \<Rightarrow> string \<Rightarrow> bool" where
  "contains p [] = (p = [])"
| "contains p (c # s) = (starts_with p (c # s) \<or> contains p s)"

text \<open>
  A variable of the graph, with the name TensorFlow gave it. The collections
  \<^verbatim>\<open>tf.trainable_variables(scope)\<close> and \<^verbatim>\<open>tf.global_variables(scope)\<close> belong to the
  graph and are parameters.
\<close>

record variable =
  var_name :: string
  var_shape :: shape

record collections =
  trainable_variables :: "string \<Rightarrow> variable list"
  global_variables :: "string \<Rightarrow> variable list"

text \<open>
  \<^verbatim>\<open>
  def get_variable_for_layer(self, index, trainable=None):
      var_list = []
      hidden_name = 'encoder/hidden_%d' % index, 'decoder/hidden_%d' % index
      if trainable is True or trainable is None:
          all_vars = tf.trainable_variables(scope=self.scope_name)
      else:
          all_vars = tf.global_variables(scope=self.scope_name)
      for var in all_vars:
          if (hidden_name[0] in var.name) or (hidden_name[1] in var.name):
              var_list.append(var)
      return var_list
  \<close>
\<close>

fun collect_vars :: "string \<times> string \<Rightarrow> variable list \<Rightarrow> variable list \<Rightarrow> variable list" where
  "collect_vars names [] var_list = var_list"
| "collect_vars names (var # rest) var_list =
     collect_vars names rest
       (if contains (fst names) (var_name var) \<or> contains (snd names) (var_name var)
        then var_list @ [var] else var_list)"

definition get_variable_for_layer ::
  "collections \<Rightarrow> stack_autoencoder \<Rightarrow> int \<Rightarrow> bool option \<Rightarrow> variable list" where
  "get_variable_for_layer G self index trainable =
     (let names = (format_d ''encoder/hidden_%d'' index, format_d ''decoder/hidden_%d'' index);
          all_vars = (if trainable = Some True \<or> trainable = None
                      then trainable_variables G (scope_name self)
                      else global_variables G (scope_name self))
      in collect_vars names all_vars [])"

section \<open>Example inputs\<close>

text \<open>A \<open>64 \<times> 64\<close> image with three channels and an unknown batch size.\<close>

definition example_shape :: "tensor \<Rightarrow> shape" where
  "example_shape t = [None, Some 64, Some 64, Some 3]"

text \<open>The object \<^verbatim>\<open>stack_autoencoder(x, 2, [16, 32])\<close>, and a state with its build done.\<close>

definition example_model :: stack_autoencoder where
  "example_model =
     \<lparr>scope_name = ''stack_autoencoder'', in_data = Placeholder ''x'' Float32,
      in_shape = [None, Some 64, Some 64, Some 3], layer_num = 2,
      hidden_outputs = [Some 3, Some 16, Some 32],
      layer_train_ph = None, encoded = None, decoded = None\<rparr>"

definition example_built :: stack_autoencoder where
  "example_built =
     example_model\<lparr>layer_train_ph := Some (Placeholder ''layer_train'' Uint8),
       encoded := Some [Placeholder ''x'' Float32, Placeholder ''h1'' Float32, Placeholder ''h2'' Float32],
       decoded := Some (Placeholder ''d0'' Float32)\<rparr>"

section \<open>Auxiliary facts\<close>

lemma py_range_1: "py_range 1 = [0]"
  by (simp add: py_range_def)

lemma init_example: "init example_shape (Placeholder ''x'' Float32) 2 [16, 32] = Inr example_model"
  by (simp add: init_def example_shape_def example_model_def last3_def last1_def
        dimension_eq_def)

lemma example_built_is_built: "built example_built"
  by (simp add: built_def example_built_def example_model_def)

section \<open>Properties of the gating\<close>

text \<open>Stage 0 of either loop takes \<^verbatim>\<open>layers[-1]\<close> as it is.\<close>

lemma encode_layer_first: "encode_layer 0 ph zero layers = py_index layers (- 1)"
  by (cases "py_index layers (- 1)") (simp_all add: encode_layer_def bind_def)

text \<open>
  Against the control placeholder as \<^verbatim>\<open>__gen_model\<close> declares it, with the element
  type \<^verbatim>\<open>uint8\<close>, the predicate of the gate cannot be built.
\<close>

lemma tf_less_uint8:
  "tf_less i (Placeholder name Uint8)
     = Inl (TypeError ''Input y of Less Op has a type that does not match type int32 of argument x'')"
  by (simp add: tf_less_def)

lemma encode_layer_uint8:
  "i \<noteq> 0 \<Longrightarrow> layers \<noteq> [] \<Longrightarrow>
   encode_layer i (Placeholder name Uint8) zero layers
     = Inl (TypeError ''Input y of Less Op has a type that does not match type int32 of argument x'')"
  by (cases layers rule: rev_cases)
    (simp_all add: encode_layer_def bind_def py_index_def tf_less_uint8)

lemma decode_layer_uint8:
  "i \<noteq> 0 \<Longrightarrow> layers \<noteq> [] \<Longrightarrow>
   decode_layer i (Placeholder name Uint8) layers
     = Inl (TypeError ''Input y of Less Op has a type that does not match type int32 of argument x'')"
  by (cases layers rule: rev_cases)
    (simp_all add: decode_layer_def bind_def py_index_def tf_less_uint8)


text \<open>
  Claim C1. On the model \<^verbatim>\<open>stack_autoencoder(x, 2, [16, 32])\<close> the call
  \<^verbatim>\<open>gen_model([[3, 3], [3, 3]])\<close> raises at the length check and records no encoded
  output, so encode stage 1 is fed nothing, neither the output of stage 0 nor the zero
  constant. The gate of stage 1 itself (lines 149 to 153), run on \<^verbatim>\<open>layers\<close> as
  stage 0 would leave it, raises \<open>TypeError\<close> when it builds
  \<^verbatim>\<open>tf.less(1, self.layer_train_ph)\<close> and yields no input for the codec.
\<close>

theorem encode_stage_one_not_fed:
  "fst (gen_model example_shape example_model
          [PyList [Some 3, Some 3], PyList [Some 3, Some 3]])
     = Inl (ValueError ''The length of filter_sizes must be equal 1 or layer_num.'')
   \<and> encoded (snd (gen_model example_shape example_model
          [PyList [Some 3, Some 3], PyList [Some 3, Some 3]])) = None
   \<and> encode_layer 1 (Placeholder ''layer_train'' Uint8) (Constant ''zero_constant'' Float32)
       [Placeholder ''x'' Float32, Placeholder ''h1'' Float32]
     = Inl (TypeError ''Input y of Less Op has a type that does not match type int32 of argument x'')"
  by (simp add: gen_model_def gen_model_in_def example_model_def encode_layer_def bind_def
        py_index_def tf_less_def)




section \<open>Properties of the build\<close>

text \<open>
  Claim C3. The docstring of \<^verbatim>\<open>gen_model\<close> and the message of the check allow one
  filter size for all layers or one per layer. The check joins its two inequalities
  with \<^verbatim>\<open>or\<close>, so on the model \<^verbatim>\<open>stack_autoencoder(x, 2, [16, 32])\<close> both a list of
  one size and a list of two sizes are refused.
\<close>

theorem gen_model_rejects_documented_lengths:
  "init example_shape (Placeholder ''x'' Float32) 2 [16, 32] = Inr example_model
   \<and> fst (gen_model example_shape example_model [PyList [Some 3, Some 3]])
       = Inl (ValueError ''The length of filter_sizes must be equal 1 or layer_num.'')
   \<and> fst (gen_model example_shape example_model
             [PyList [Some 3, Some 3], PyList [Some 5, Some 5]])
       = Inl (ValueError ''The length of filter_sizes must be equal 1 or layer_num.'')"
  by (simp add: init_example gen_model_def gen_model_in_def example_model_def)

text \<open>
  Claim C4. On every object and for every \<^verbatim>\<open>filter_sizes\<close>, \<^verbatim>\<open>gen_model\<close> raises.
  The length check lets through only one filter size on a model of one layer, and then
  the layer name of the first encode iteration raises \<open>TypeError\<close>; in every other
  case the check raises \<open>ValueError\<close>. The outcome is the same whatever the callee
  \<^verbatim>\<open>codec\<close> resolves to, so no codec is called; the callee itself is an unbound name.
  An object that was not built before the call is not built after it.
\<close>

theorem gen_model_always_raises:
  "fst (gen_model shape_of self fs)
     = Inl (if length fs = 1 \<and> layer_num self = 1
            then TypeError ''can only concatenate str to str''
            else ValueError ''The length of filter_sizes must be equal 1 or layer_num.'')
   \<and> fst (gen_model_in ((source_env shape_of)\<lparr>codec_name := cn\<rparr>) self fs)
     = fst (gen_model shape_of self fs)
   \<and> codec_name (source_env shape_of) = Inl (NameError ''codec'')
   \<and> (\<not> built self \<longrightarrow> \<not> built (snd (gen_model shape_of self fs)))"
proof (intro conjI impI)
  show "fst (gen_model shape_of self fs)
     = Inl (if length fs = 1 \<and> layer_num self = 1
            then TypeError ''can only concatenate str to str''
            else ValueError ''The length of filter_sizes must be equal 1 or layer_num.'')"
    by (auto simp: gen_model_def gen_model_in_def source_env_def py_range_1 encode_step_def
          hidden_name_def str_plus_def bind_def)
  show "fst (gen_model_in ((source_env shape_of)\<lparr>codec_name := cn\<rparr>) self fs)
     = fst (gen_model shape_of self fs)"
    by (auto simp: gen_model_def gen_model_in_def source_env_def py_range_1 encode_step_def
          hidden_name_def str_plus_def bind_def)
  show "codec_name (source_env shape_of) = Inl (NameError ''codec'')"
    by (simp add: source_env_def)
  assume nb: "\<not> built self"
  show "\<not> built (snd (gen_model shape_of self fs))"
  proof (cases "length fs = 1 \<and> layer_num self = 1")
    case True
    then have "encoded (snd (gen_model shape_of self fs)) = Some [in_data self]"
      and "layer_num (snd (gen_model shape_of self fs)) = 1"
      by (simp_all add: gen_model_def gen_model_in_def source_env_def py_range_1 encode_step_def
            hidden_name_def str_plus_def bind_def)
    then show ?thesis by (simp add: built_def)
  next
    case False
    then have "snd (gen_model shape_of self fs) = self"
      by (auto simp: gen_model_def gen_model_in_def)
    with nb show ?thesis by simp
  qed
qed

theorem gen_model_always_raises_witness:
  "fst (gen_model example_shape
          (example_model\<lparr>layer_num := 1, hidden_outputs := [Some 3, Some 16]\<rparr>)
          [PyList [Some 3, Some 3]])
     = Inl (TypeError ''can only concatenate str to str'')
   \<and> fst (gen_model example_shape example_model default_filter_sizes)
     = Inl (ValueError ''The length of filter_sizes must be equal 1 or layer_num.'')
   \<and> \<not> built (snd (gen_model example_shape
          (example_model\<lparr>layer_num := 1, hidden_outputs := [Some 3, Some 16]\<rparr>)
          [PyList [Some 3, Some 3]]))"
  using gen_model_always_raises
      [of example_shape "example_model\<lparr>layer_num := 1, hidden_outputs := [Some 3, Some 16]\<rparr>"
          "[PyList [Some 3, Some 3]]"]
    gen_model_always_raises [of example_shape example_model default_filter_sizes]
  by (simp add: example_model_def default_filter_sizes_def built_def)

text \<open>
  With a layer name that evaluates, the same call gets as far as the callee and raises
  \<open>NameError\<close> there.
\<close>

lemma gen_model_unbound_codec:
  "fst (gen_model_in
          ((source_env example_shape)\<lparr>layer_name := (\<lambda>i. Inr (format_d ''hidden_%d'' (i + 1)))\<rparr>)
          (example_model\<lparr>layer_num := 1, hidden_outputs := [Some 3, Some 16]\<rparr>)
          [PyList [Some 3, Some 3]])
     = Inl (NameError ''codec'')"
  by (simp add: gen_model_in_def source_env_def py_range_1 encode_step_def encode_layer_def
        bind_def py_index_def plus_list_def example_model_def)

section \<open>Properties of the codec operator\<close>

lemma codec_decode_without_size:
  "codec scope imgs f (PyBool False) name None ksize strides
     = Inl (ValueError ''The value of the new_size must be set if the is_encode is False.'')"
  by (simp add: codec_def bind_def)

text \<open>
  Claim C5. In decode mode a missing target size raises the \<open>ValueError\<close> of the
  source (the lemma above). With a target size the source means to resize and then
  convolve, but the name it looks up in \<^verbatim>\<open>tf.image\<close> is misspelled: every such call
  raises \<open>AttributeError\<close>, and no resize and no convolution is built.
\<close>

theorem codec_decode_with_size_raises:
  "codec scope imgs f (PyBool False) name (Some sz) ksize strides
     = Inl (AttributeError ''resize_nearest_nerghbor'')"
  by (simp add: codec_def tf_image_def bind_def)

section \<open>Properties of the variable index\<close>

lemma collect_vars_filter:
  "collect_vars names vs acc
     = acc @ filter (\<lambda>var. contains (fst names) (var_name var)
                          \<or> contains (snd names) (var_name var)) vs"
  by (induction vs arbitrary: acc) simp_all

text \<open>
  Claim C6. The docstring promises the variables of the specified layer. The test is
  substring containment, and \<^verbatim>\<open>encoder/hidden_1\<close> is a substring of
  \<^verbatim>\<open>encoder/hidden_10\<close>: asked for layer 1, the function also returns the weights of
  layer 10 (and leaves out those of layer 2).
\<close>

theorem variables_for_layer_1_include_layer_10:
  "get_variable_for_layer
     \<lparr>trainable_variables = (\<lambda>scope.
        [\<lparr>var_name = ''stack_autoencoder/encoder/hidden_1/weights:0'',
          var_shape = [Some 3, Some 3, Some 3, Some 16]\<rparr>,
         \<lparr>var_name = ''stack_autoencoder/encoder/hidden_2/weights:0'',
          var_shape = [Some 3, Some 3, Some 16, Some 16]\<rparr>,
         \<lparr>var_name = ''stack_autoencoder/encoder/hidden_10/weights:0'',
          var_shape = [Some 3, Some 3, Some 16, Some 16]\<rparr>]),
      global_variables = (\<lambda>scope. [])\<rparr>
     self 1 None
   = [\<lparr>var_name = ''stack_autoencoder/encoder/hidden_1/weights:0'',
       var_shape = [Some 3, Some 3, Some 3, Some 16]\<rparr>,
      \<lparr>var_name = ''stack_autoencoder/encoder/hidden_10/weights:0'',
       var_shape = [Some 3, Some 3, Some 16, Some 16]\<rparr>]"
  by (simp add: get_variable_for_layer_def show_int_def)

section \<open>Properties of the constructor\<close>

text \<open>The test of line 28 is false on every shape.\<close>

lemma none_in_never: "none_in ds = False"
  by (induction ds) (simp_all add: dimension_eq_def split: option.splits)

text \<open>
  The length check works as documented, and with matching lengths the object is
  returned, with the channel count of the input put before the hidden outputs.
\<close>

lemma init_length_check:
  "init shape_of x n hs =
     (if int (length hs) \<noteq> n
      then Inl (ValueError ''The length of the hidden_outputs must be equal layer_num.'')
      else Inr \<lparr>scope_name = ''stack_autoencoder'', in_data = x, in_shape = shape_of x,
                layer_num = n, hidden_outputs = last1 (shape_of x) @ map Some hs,
                layer_train_ph = None, encoded = None, decoded = None\<rparr>)"
  by (simp add: init_def none_in_never)

text \<open>
  Claim C9. The docstring and the message of line 29 require the last three dimensions
  of the input to be known, and line 28 means to check it. The check compares
  \<^verbatim>\<open>Dimension\<close> objects with \<^verbatim>\<open>None\<close> and never fires: with an unknown width
  and matching lengths the constructor returns an object, and with an unknown width and
  one hidden output for two layers it raises the error of the length check.
\<close>

theorem init_accepts_unknown_width:
  "init (\<lambda>t. [None, Some 64, None, Some 3]) (Placeholder ''x'' Float32) 2 [16, 32]
     = Inr \<lparr>scope_name = ''stack_autoencoder'', in_data = Placeholder ''x'' Float32,
            in_shape = [None, Some 64, None, Some 3], layer_num = 2,
            hidden_outputs = [Some 3, Some 16, Some 32],
            layer_train_ph = None, encoded = None, decoded = None\<rparr>
   \<and> init (\<lambda>t. [None, Some 64, None, Some 3]) (Placeholder ''x'' Float32) 2 [16]
     = Inl (ValueError ''The length of the hidden_outputs must be equal layer_num.'')"
  by (simp add: init_def last3_def last1_def dimension_eq_def)

section \<open>Properties of \<^verbatim>\<open>get_encoded\<close>\<close>

lemma get_encoded_zero: "built self \<Longrightarrow> get_encoded self (Some 0) = Inr (in_data self)"
  by (auto simp: built_def get_encoded_def py_gt_def bind_def get_attr_def py_index_def
      split: option.splits)

text \<open>
  Claim C7. \<^verbatim>\<open>get_encoded()\<close> is documented to default to \<open>layer_num\<close>, but the range
  check compares the index before the default is put in: with no argument the call
  raises \<open>TypeError\<close> on every model, whatever \<^verbatim>\<open>get_encoded(layer_num)\<close> returns.
  (\<^verbatim>\<open>get_encoded(0)\<close> does return the input tensor, by the lemma above.)
\<close>

theorem get_encoded_no_argument_raises:
  "get_encoded self None
     = Inl (TypeError ''> not supported between instances of NoneType and int'')"
  by (simp add: get_encoded_def py_gt_def bind_def)

text \<open>
  Claim C8. For every model and every integer index greater than \<open>layer_num\<close>,
  \<^verbatim>\<open>get_encoded(index)\<close> raises the \<open>ValueError\<close> of the range check and returns
  no tensor. The check is the first statement, so the state of the other attributes
  does not matter.
\<close>

theorem get_encoded_above_layer_num:
  "layer_num self < i \<Longrightarrow>
   get_encoded self (Some i) = Inl (ValueError ''The index must be less than the layer_num.'')"
  by (simp add: get_encoded_def py_gt_def bind_def)

theorem get_encoded_above_layer_num_witness:
  "layer_num example_built < 3
   \<and> get_encoded example_built (Some 3)
       = Inl (ValueError ''The index must be less than the layer_num.'')"
proof -
  have h: "layer_num example_built < 3" by (simp add: example_built_def example_model_def)
  from get_encoded_above_layer_num [OF h] h show ?thesis by simp
qed

text \<open>
  Claim C10. For every built model and every index with
  \<open>- (layer_num + 1) \<le> index < 0\<close>, \<^verbatim>\<open>get_encoded(index)\<close> does not raise: there is
  no lower bound check, and it returns the entry of \<^verbatim>\<open>self.encoded\<close> at position
  \<open>layer_num + 1 + index\<close>.
\<close>

theorem get_encoded_negative_index:
  assumes "built self" and "- (layer_num self + 1) \<le> i" and "i < 0"
  shows "\<exists>es. encoded self = Some es
           \<and> get_encoded self (Some i) = Inr (es ! nat (layer_num self + 1 + i))"
proof -
  from assms(1) obtain es where es: "encoded self = Some es"
    and len: "int (length es) = layer_num self + 1"
    by (auto simp: built_def split: option.splits)
  from assms(2,3) have "\<not> layer_num self < i" by linarith
  with es len assms(2,3) have
    "get_encoded self (Some i) = Inr (es ! nat (layer_num self + 1 + i))"
    by (simp add: get_encoded_def py_gt_def bind_def get_attr_def py_index_def)
  with es show ?thesis by blast
qed

text \<open>\<^verbatim>\<open>get_encoded(-1)\<close> on two layers is the deepest encoded output.\<close>

theorem get_encoded_negative_index_witness:
  "built example_built \<and> get_encoded example_built (Some (- 1)) = Inr (Placeholder ''h2'' Float32)"
proof -
  have lo: "- (layer_num example_built + 1) \<le> - 1"
    by (simp add: example_built_def example_model_def)
  have hi: "(- 1 :: int) < 0" by simp
  from get_encoded_negative_index [OF example_built_is_built lo hi] example_built_is_built
  show ?thesis by (simp add: example_built_def example_model_def)
qed

end
